theory Spec2Isabelle
  imports Complex_Main "HOL-Library.Char_ord" "HOL-Library.List_Lexorder"
begin

section \<open>Aggregated profiles: the data\<close>

text \<open>
  The module \<^verbatim>\<open>dataset_level/_aggregated_profiles/object.py\<close> holds the class
  \<^verbatim>\<open>AggregatedProfiles\<close> with the methods \<^verbatim>\<open>__init__\<close>, \<^verbatim>\<open>fit\<close> and
  \<^verbatim>\<open>plot\<close>. Python exceptions are values of the type \<open>error\<close>; only the class of
  the exception is kept, not its message.
\<close>

datatype error =
  TypeError | AttributeError | KeyError | ValueError | ZeroDivisionError | OtherError

text \<open>
  A data frame is kept as its column labels and its rows; a row gives a cell to some of
  the labels, and a label of the frame that a row does not mention is a missing value
  there. The type \<open>'n\<close> is the type of the floating point numbers, on which the module
  itself never computes: every number comes out of a collaborator.
\<close>

datatype 'n cell = Str string | Num 'n | NaN

type_synonym 'n row = "(string \<times> 'n cell) list"

record 'n frame =
  columns :: "string list"
  rows :: "'n row list"

definition cell_at :: "string \<Rightarrow> 'n row \<Rightarrow> 'n cell" where
  "cell_at c r = (case map_of r c of None \<Rightarrow> NaN | Some v \<Rightarrow> v)"

text \<open>\<^verbatim>\<open>df[c]\<close>: the column, or a \<^verbatim>\<open>KeyError\<close> when the frame has no such label.\<close>

definition get_col :: "string \<Rightarrow> 'n frame \<Rightarrow> error + 'n cell list" where
  "get_col c df = (if c \<in> set (columns df) then Inr (map (cell_at c) (rows df)) else Inl KeyError)"

text \<open>
  \<^verbatim>\<open>pd.concat([a, d])\<close> where \<^verbatim>\<open>a\<close> may be \<^verbatim>\<open>None\<close> (which is dropped): the rows
  of both, under the labels of the first followed by the new labels of the second.
\<close>

fun pd_concat :: "'n frame option \<Rightarrow> 'n frame \<Rightarrow> 'n frame" where
  "pd_concat None d = d"
| "pd_concat (Some a) d =
     \<lparr>columns = columns a @ filter (\<lambda>c. c \<notin> set (columns a)) (columns d),
      rows = rows a @ rows d\<rparr>"

text \<open>
  Modelled from the spec: the class \<^verbatim>\<open>CeterisParibus\<close> of
  \<^verbatim>\<open>dalex.instance_level\<close>, of which the spec says that each container pairs a
  results table (\<^verbatim>\<open>result\<close>) with the originating observations table
  (\<^verbatim>\<open>new_observation\<close>). The tables are those of the upstream computation, so
  a container that was never fitted has \<^verbatim>\<open>None\<close> in their place.
\<close>

record 'n ceteris_paribus =
  cp_result :: "'n frame option"
  new_observation :: "'n frame option"

text \<open>The Python values that \<^verbatim>\<open>fit\<close> may be handed as \<^verbatim>\<open>ceteris_paribus\<close>.\<close>

datatype 'n pyval =
    CeterisParibus "'n ceteris_paribus"
  | PyList "'n pyval list"
  | PyTuple "'n pyval list"
  | PyNone
  | PyInt int
  | PyStr string

text \<open>The fields of an \<^verbatim>\<open>AggregatedProfiles\<close> object, as \<^verbatim>\<open>__init__\<close> sets them.\<close>

record 'n aggregated_profiles =
  variable_type :: string
  groups :: "string list option"
  type :: string
  variables :: "string list option"
  span :: 'n
  center :: bool
  result :: "'n frame option"
  mean_prediction :: "'n option"
  raw_profiles :: "'n ceteris_paribus option"
  random_state :: "int option"

text \<open>
  The functions of \<^verbatim>\<open>checks.py\<close> and \<^verbatim>\<open>utils.py\<close> that \<^verbatim>\<open>fit\<close> calls, and
  the mean of a column, are parameters of the model: each may raise. So may
  \<^verbatim>\<open>pd.concat\<close> and \<^verbatim>\<open>deepcopy\<close>: the last two fields say on which arguments
  the libraries raise, and with what.
\<close>

record 'n collaborators =
  prepare_all_variables :: "'n frame option \<Rightarrow> string list option \<Rightarrow> error + string list"
  prepare_numerical_categorical ::
    "string list \<Rightarrow> 'n frame option \<Rightarrow> string \<Rightarrow> error + ('n frame \<times> string list)"
  create_x :: "'n frame \<Rightarrow> string \<Rightarrow> error + 'n frame"
  aggregate_profiles ::
    "'n frame \<Rightarrow> string \<Rightarrow> string list option \<Rightarrow> bool \<Rightarrow> 'n \<Rightarrow> bool \<Rightarrow> error + 'n frame"
  series_mean :: "'n cell list \<Rightarrow> error + 'n"
  concat_raises :: "'n frame option \<Rightarrow> 'n frame \<Rightarrow> error option"
  deepcopy_raises :: "'n ceteris_paribus \<Rightarrow> error option"

section \<open>fit\<close>

text \<open>
  \<^verbatim>\<open>x.copy()\<close> of a table held by a container: \<^verbatim>\<open>None\<close> has no attribute
  \<^verbatim>\<open>copy\<close>. A copy is an equal value, and values are all the model has.
\<close>

definition copy_table :: "'n frame option \<Rightarrow> error + 'n frame" where
  "copy_table t = (case t of None \<Rightarrow> Inl AttributeError | Some df \<Rightarrow> Inr df)"

text \<open>The calls \<^verbatim>\<open>pd.concat([a, d])\<close> and \<^verbatim>\<open>deepcopy(c)\<close>.\<close>

definition concat_call ::
  "'n collaborators \<Rightarrow> 'n frame option \<Rightarrow> 'n frame \<Rightarrow> error + 'n frame" where
  "concat_call L a d =
     (case concat_raises L a d of Some e \<Rightarrow> Inl e | None \<Rightarrow> Inr (pd_concat a d))"

definition deepcopy_call ::
  "'n collaborators \<Rightarrow> 'n ceteris_paribus \<Rightarrow> error + 'n ceteris_paribus" where
  "deepcopy_call L c = (case deepcopy_raises L c of Some e \<Rightarrow> Inl e | None \<Rightarrow> Inr c)"

text \<open>
  Lines 120 to 124: the loop over a list or tuple, with the two accumulators. The first
  element that is no container raises, unless a copy or a concatenation has raised
  before it is reached.
\<close>

fun collect ::
  "'n collaborators \<Rightarrow> 'n pyval list \<Rightarrow> 'n frame option \<times> 'n frame option \<Rightarrow>
     error + ('n frame option \<times> 'n frame option)" where
  "collect L [] acc = Inr acc"
| "collect L (cp # rest) (all_profiles, all_observations) =
     (case cp of
        CeterisParibus c \<Rightarrow>
          (case copy_table (cp_result c) of Inl e \<Rightarrow> Inl e | Inr r \<Rightarrow>
          (case concat_call L all_profiles r of Inl e \<Rightarrow> Inl e | Inr all_profiles1 \<Rightarrow>
          (case copy_table (new_observation c) of Inl e \<Rightarrow> Inl e | Inr ob \<Rightarrow>
          (case concat_call L all_observations ob of Inl e \<Rightarrow> Inl e | Inr all_observations1 \<Rightarrow>
             collect L rest (Some all_profiles1, Some all_observations1)))))
      | _ \<Rightarrow> Inl TypeError)"

text \<open>\<^verbatim>\<open>df.loc[df['_vname_'].isin(vnames), :]\<close>\<close>

definition select_vnames :: "string list \<Rightarrow> 'n frame \<Rightarrow> error + 'n frame" where
  "select_vnames vnames df =
     (case get_col ''_vname_'' df of
        Inl e \<Rightarrow> Inl e
      | Inr _ \<Rightarrow>
          Inr (df\<lparr>rows := filter (\<lambda>r. cell_at ''_vname_'' r \<in> Str ` set vnames) (rows df)\<rparr>))"

text \<open>Lines 129 to 139: the value that is assigned to \<^verbatim>\<open>self.result\<close>.\<close>

definition aggregate ::
  "'n collaborators \<Rightarrow> 'n aggregated_profiles \<Rightarrow> 'n frame option \<Rightarrow> bool \<Rightarrow> error + 'n frame" where
  "aggregate L self all_profiles verbose =
     (case prepare_all_variables L all_profiles (variables self) of
        Inl e \<Rightarrow> Inl e
      | Inr all_variables \<Rightarrow>
     (case prepare_numerical_categorical L all_variables all_profiles (variable_type self) of
        Inl e \<Rightarrow> Inl e
      | Inr (all_profiles1, vnames) \<Rightarrow>
     (case select_vnames vnames all_profiles1 of
        Inl e \<Rightarrow> Inl e
      | Inr all_profiles2 \<Rightarrow>
     (case create_x L all_profiles2 (variable_type self) of
        Inl e \<Rightarrow> Inl e
      | Inr all_profiles3 \<Rightarrow>
          aggregate_profiles L all_profiles3 (type self) (groups self) (center self)
            (span self) verbose))))"

text \<open>
  Line 141: \<^verbatim>\<open>all_observations['_yhat_'].mean()\<close>; subscripting \<^verbatim>\<open>None\<close> is a
  \<^verbatim>\<open>TypeError\<close>.
\<close>

definition observed_mean :: "'n collaborators \<Rightarrow> 'n frame option \<Rightarrow> error + 'n" where
  "observed_mean L all_observations =
     (case all_observations of
        None \<Rightarrow> Inl TypeError
      | Some obs \<Rightarrow>
          (case get_col ''_yhat_'' obs of Inl e \<Rightarrow> Inl e | Inr ys \<Rightarrow> series_mean L ys))"

text \<open>
  Lines 129 to 141. An exception leaves the object as the assignments made so far have
  left it, so the object is returned beside the outcome.
\<close>

definition fit_tail ::
  "'n collaborators \<Rightarrow> 'n aggregated_profiles \<Rightarrow> 'n frame option \<Rightarrow> 'n frame option \<Rightarrow> bool \<Rightarrow>
     (error + unit) \<times> 'n aggregated_profiles" where
  "fit_tail L self all_profiles all_observations verbose =
     (case aggregate L self all_profiles verbose of
        Inl e \<Rightarrow> (Inl e, self)
      | Inr r \<Rightarrow>
          (case observed_mean L all_observations of
             Inl e \<Rightarrow> (Inl e, self\<lparr>result := Some r\<rparr>)
           | Inr m \<Rightarrow> (Inr (), self\<lparr>result := Some r, mean_prediction := Some m\<rparr>)))"

text \<open>
  Lines 112 to 141. For a single container the two tables are copied (lines 113 and
  114) before the container is stored (line 115).
\<close>

definition fit ::
  "'n collaborators \<Rightarrow> 'n aggregated_profiles \<Rightarrow> 'n pyval \<Rightarrow> bool \<Rightarrow>
     (error + unit) \<times> 'n aggregated_profiles" where
  "fit L self ceteris_paribus verbose =
     (case ceteris_paribus of
        CeterisParibus c \<Rightarrow>
          (case copy_table (cp_result c) of Inl e \<Rightarrow> (Inl e, self) | Inr all_profiles \<Rightarrow>
          (case copy_table (new_observation c) of
             Inl e \<Rightarrow> (Inl e, self)
           | Inr all_observations \<Rightarrow>
          (case deepcopy_call L c of
             Inl e \<Rightarrow> (Inl e, self)
           | Inr stored \<Rightarrow>
               fit_tail L (self\<lparr>raw_profiles := Some stored\<rparr>)
                 (Some all_profiles) (Some all_observations) verbose)))
      | PyList xs \<Rightarrow>
          (case collect L xs (None, None) of
             Inl e \<Rightarrow> (Inl e, self)
           | Inr (all_profiles, all_observations) \<Rightarrow>
               fit_tail L self all_profiles all_observations verbose)
      | PyTuple xs \<Rightarrow>
          (case collect L xs (None, None) of
             Inl e \<Rightarrow> (Inl e, self)
           | Inr (all_profiles, all_observations) \<Rightarrow>
               fit_tail L self all_profiles all_observations verbose)
      | _ \<Rightarrow> (Inl TypeError, self))"

section \<open>Construction\<close>

text \<open>
  A name argument of \<^verbatim>\<open>__init__\<close>: \<^verbatim>\<open>None\<close>, one string, or a sequence of
  strings.
\<close>

datatype names_arg = NoNames | OneName string | Names "string list"

text \<open>
  Modelled from the spec: \<^verbatim>\<open>check_variable_type\<close> of \<^verbatim>\<open>checks.py\<close>, which
  fails with a validation error if the variable kind is not one of the two recognized
  values. The spec does not name the class of that error; it is \<open>ValidationError\<close>
  here.
\<close>

datatype init_error = ValidationError

definition check_variable_type :: "'n pyval \<Rightarrow> init_error + unit" where
  "check_variable_type v =
     (if v = PyStr ''numerical'' \<or> v = PyStr ''categorical''
      then Inr () else Inl ValidationError)"

text \<open>
  Modelled from the spec: \<^verbatim>\<open>check_variables\<close> and \<^verbatim>\<open>check_groups\<close> of
  \<^verbatim>\<open>checks.py\<close>, which normalize scalar name arguments into sequences.
\<close>

fun check_variables :: "names_arg \<Rightarrow> string list option" where
  "check_variables NoNames = None"
| "check_variables (OneName v) = Some [v]"
| "check_variables (Names vs) = Some vs"

fun check_groups :: "names_arg \<Rightarrow> string list option" where
  "check_groups NoNames = None"
| "check_groups (OneName g) = Some [g]"
| "check_groups (Names gs) = Some gs"

fun str_of :: "'n pyval \<Rightarrow> string" where
  "str_of (PyStr s) = s"
| "str_of _ = []"

text \<open>
  Lines 68 to 90, with the arguments in the order of the signature: \<^verbatim>\<open>type\<close>,
  \<^verbatim>\<open>variables\<close>, \<^verbatim>\<open>variable_type\<close>, \<^verbatim>\<open>groups\<close>, \<^verbatim>\<open>span\<close>,
  \<^verbatim>\<open>center\<close>, \<^verbatim>\<open>random_state\<close>. The check of the variable kind comes first
  and nothing is built when it fails.
\<close>

definition init ::
  "string \<Rightarrow> names_arg \<Rightarrow> 'n pyval \<Rightarrow> names_arg \<Rightarrow> 'n \<Rightarrow> bool \<Rightarrow> int option \<Rightarrow>
     init_error + 'n aggregated_profiles" where
  "init type_arg variables_arg variable_type_arg groups_arg span_arg center_arg random_state_arg =
     (case check_variable_type variable_type_arg of
        Inl e \<Rightarrow> Inl e
      | Inr _ \<Rightarrow>
          Inr \<lparr>variable_type = str_of variable_type_arg,
               groups = check_groups groups_arg,
               type = type_arg,
               variables = check_variables variables_arg,
               span = span_arg,
               center = center_arg,
               result = None,
               mean_prediction = None,
               raw_profiles = None,
               random_state = random_state_arg\<rparr>)"

section \<open>plot\<close>

text \<open>
  What \<^verbatim>\<open>plot\<close> may be handed as \<^verbatim>\<open>objects\<close>: \<^verbatim>\<open>None\<close>, one
  \<^verbatim>\<open>AggregatedProfiles\<close> object, a sequence whose elements are such objects or
  something else, or a value that cannot be iterated over.
\<close>

datatype 'n plot_item = AnAggregatedProfiles "'n aggregated_profiles" | AnotherValue

datatype 'n objects_arg =
    NoObjects
  | OneObject "'n aggregated_profiles"
  | ObjectSeq "'n plot_item list"
  | NotIterable

text \<open>
  The arguments of \<^verbatim>\<open>plot\<close>, under the names of the signature (\<^verbatim>\<open>variables\<close>,
  \<^verbatim>\<open>size\<close> and \<^verbatim>\<open>show\<close> with a suffix).
\<close>

record 'n plot_args =
  objects :: "'n objects_arg"
  geom :: "'n pyval"
  variables_arg :: names_arg
  size_arg :: 'n
  alpha :: 'n
  facet_ncol :: int
  title :: string
  title_x :: string
  horizontal_spacing :: 'n
  vertical_spacing :: "'n option"
  show_arg :: bool

datatype hovermode = XUnified | HoverOff

text \<open>
  What is handed to \<^verbatim>\<open>px.line\<close> or \<^verbatim>\<open>px.bar\<close> and to the updates chained on
  it: the table, the order of the facets, the wrap and the spacings of the facets, the
  render mode (lines only), the number of colours asked of
  \<^verbatim>\<open>get_default_colors\<close>, the width and opacity of the traces (lines only) and the
  range of the y axis.
\<close>

record 'n chart_spec =
  chart_data :: "'n frame"
  category_orders :: "'n cell list"
  facet_col_wrap :: int
  facet_row_spacing :: 'n
  facet_col_spacing :: 'n
  render_mode :: "string option"
  colors :: nat
  traces :: "('n \<times> 'n) option"
  y_range :: "'n \<times> 'n"

text \<open>
  The plotting library, numpy and the theme helpers are parameters of the model, over
  a type \<open>'fig\<close> of figures; each call that builds or shows a figure may raise.
  \<open>is_literal v s\<close> is \<^verbatim>\<open>v is s\<close> for the string literal \<open>s\<close>, which the
  language leaves to the interning of strings.
\<close>

record ('n, 'fig) plotting =
  is_literal :: "'n pyval \<Rightarrow> string \<Rightarrow> bool"
  min_max_of :: "'n cell list \<Rightarrow> error + ('n \<times> 'n)"
  is_numeric_dtype :: "'n cell list \<Rightarrow> bool"
  default_spacing :: "int \<Rightarrow> 'n"
  px_line :: "'n chart_spec \<Rightarrow> error + 'fig"
  px_bar :: "'n chart_spec \<Rightarrow> error + 'fig"
  widen_traces :: "'fig \<Rightarrow> 'n \<Rightarrow> error + 'fig"
  cp_plot :: "'n ceteris_paribus \<Rightarrow> 'n cell list \<Rightarrow> int \<Rightarrow> error + 'fig"
  add_traces :: "'fig \<Rightarrow> 'fig \<Rightarrow> error + 'fig"
  fig_update_line_plot :: "'fig \<Rightarrow> string \<Rightarrow> string \<Rightarrow> int \<Rightarrow> hovermode \<Rightarrow> error + 'fig"
  fig_show :: "'fig \<Rightarrow> error option"

text \<open>
  \<^verbatim>\<open>ob.result.assign(_mp_=ob.mean_prediction)\<close>: an object that was never fitted has
  \<^verbatim>\<open>None\<close> for its result, and \<^verbatim>\<open>None\<close> has no attribute \<^verbatim>\<open>assign\<close>.
\<close>

definition assign_mp :: "'n aggregated_profiles \<Rightarrow> error + 'n frame" where
  "assign_mp ob =
     (case result ob of
        None \<Rightarrow> Inl AttributeError
      | Some df \<Rightarrow>
          Inr \<lparr>columns = columns df @ filter (\<lambda>c. c \<notin> set (columns df)) [''_mp_''],
               rows = map (\<lambda>r. (''_mp_'',
                        (case mean_prediction ob of None \<Rightarrow> NaN | Some v \<Rightarrow> Num v)) # r)
                      (rows df)\<rparr>)"

text \<open>Lines 209 to 212: the loop over a sequence of objects.\<close>

fun merge_objects :: "'n plot_item list \<Rightarrow> 'n frame \<Rightarrow> error + 'n frame" where
  "merge_objects [] result_df = Inr result_df"
| "merge_objects (AnotherValue # rest) result_df = Inl TypeError"
| "merge_objects (AnAggregatedProfiles ob # rest) result_df =
     (case assign_mp ob of
        Inl e \<Rightarrow> Inl e
      | Inr df \<Rightarrow> merge_objects rest (pd_concat (Some result_df) df))"

text \<open>Lines 202 to 212: the merged result tables.\<close>

definition merged_results :: "'n aggregated_profiles \<Rightarrow> 'n objects_arg \<Rightarrow> error + 'n frame" where
  "merged_results self obs =
     (case assign_mp self of
        Inl e \<Rightarrow> Inl e
      | Inr own \<Rightarrow>
          (case obs of
             NoObjects \<Rightarrow> Inr own
           | OneObject ob \<Rightarrow>
               (case assign_mp ob of Inl e \<Rightarrow> Inl e | Inr df \<Rightarrow> Inr (pd_concat (Some own) df))
           | ObjectSeq xs \<Rightarrow> merge_objects xs own
           | NotIterable \<Rightarrow> Inl TypeError))"

text \<open>\<^verbatim>\<open>dropna()\<close> and \<^verbatim>\<open>unique()\<close> of a column; the first occurrences stay.\<close>

definition dropna :: "'n cell list \<Rightarrow> 'n cell list" where
  "dropna cs = filter (\<lambda>c. c \<noteq> NaN) cs"

definition unique :: "'a list \<Rightarrow> 'a list" where
  "unique xs = rev (remdups (rev xs))"

text \<open>
  \<^verbatim>\<open>np.intersect1d(all_variables, variables).tolist()\<close>: the names that are in both,
  once each and sorted. A cell that is a number is never one of the names asked for.
\<close>

definition intersect1d :: "'n cell list \<Rightarrow> string list \<Rightarrow> 'n cell list" where
  "intersect1d all_variables vs =
     map Str (sort (remdups (filter (\<lambda>v. Str v \<in> set all_variables) vs)))"

text \<open>Line 198 and 199: a single name becomes a tuple of one name.\<close>

fun names_of :: "names_arg \<Rightarrow> string list option" where
  "names_of NoNames = None"
| "names_of (OneName v) = Some [v]"
| "names_of (Names vs) = Some vs"

text \<open>
  Lines 214 to 222: the variables to use and the rows kept. \<^verbatim>\<open>''.join\<close> of
  strings does not raise, and the error raised next is a \<^verbatim>\<open>TypeError\<close>.
\<close>

definition variables_to_use ::
  "'n frame \<Rightarrow> string list option \<Rightarrow> error + ('n cell list \<times> 'n frame)" where
  "variables_to_use result_df vs =
     (case get_col ''_vname_'' result_df of
        Inl e \<Rightarrow> Inl e
      | Inr names \<Rightarrow>
          (case vs of
             None \<Rightarrow> Inr (unique (dropna names), result_df)
           | Some asked \<Rightarrow>
               (let all_variables = intersect1d (unique (dropna names)) asked in
                if length all_variables = 0 then Inl TypeError
                else Inr (all_variables,
                       result_df\<lparr>rows := filter (\<lambda>r. cell_at ''_vname_'' r \<in> set all_variables)
                                            (rows result_df)\<rparr>))))"

text \<open>
  Line 232: \<^verbatim>\<open>int(np.ceil(n / facet_ncol))\<close>, on integers; dividing by zero
  raises.
\<close>

definition facet_rows :: "nat \<Rightarrow> int \<Rightarrow> error + int" where
  "facet_rows n ncol =
     (if ncol = 0 then Inl ZeroDivisionError else Inr (- ((- int n) div ncol)))"

text \<open>Lines 233 and 234: \<^verbatim>\<open>0.3 / facet_nrow\<close> when no spacing is given.\<close>

definition spacing ::
  "('n, 'fig) plotting \<Rightarrow> 'n option \<Rightarrow> int \<Rightarrow> error + 'n" where
  "spacing P given facet_nrow =
     (case given of
        Some v \<Rightarrow> Inr v
      | None \<Rightarrow> if facet_nrow = 0 then Inl ZeroDivisionError
                else Inr (default_spacing P facet_nrow))"

text \<open>
  Lines 242 and 266: the raw profiles to draw underneath, when
  \<^verbatim>\<open>geom is 'profiles' and self.raw_profiles is not None\<close>.
\<close>

definition overlay_raw ::
  "('n, 'fig) plotting \<Rightarrow> 'n aggregated_profiles \<Rightarrow> 'n plot_args \<Rightarrow>
     'n ceteris_paribus option" where
  "overlay_raw P self a =
     (if is_literal P (geom a) ''profiles'' then raw_profiles self else None)"

text \<open>Lines 241 to 296: the figure and the hover mode.\<close>

definition build_figure ::
  "('n, 'fig) plotting \<Rightarrow> 'n aggregated_profiles \<Rightarrow> 'n plot_args \<Rightarrow> 'n frame \<Rightarrow>
     'n cell list \<Rightarrow> bool \<Rightarrow> 'n \<Rightarrow> nat \<Rightarrow> 'n \<times> 'n \<Rightarrow> error + ('fig \<times> hovermode)" where
  "build_figure P self a result_df all_variables is_x_numeric spacing_v m min_max =
     (if is_x_numeric then
        (case px_line P
                \<lparr>chart_data = result_df, category_orders = all_variables,
                 facet_col_wrap = facet_ncol a, facet_row_spacing = spacing_v,
                 facet_col_spacing = horizontal_spacing a,
                 render_mode = Some (if overlay_raw P self a \<noteq> None then ''webgl'' else ''svg''),
                 colors = m, traces = Some (size_arg a, alpha a), y_range = min_max\<rparr> of
           Inl e \<Rightarrow> Inl e
         | Inr fig \<Rightarrow>
             (case overlay_raw P self a of
                None \<Rightarrow> Inr (fig, XUnified)
              | Some raw \<Rightarrow>
                (case widen_traces P fig (size_arg a) of
                   Inl e \<Rightarrow> Inl e
                 | Inr fig1 \<Rightarrow>
                (case cp_plot P raw all_variables (facet_ncol a) of
                   Inl e \<Rightarrow> Inl e
                 | Inr fig_cp \<Rightarrow>
                (case add_traces P fig_cp fig1 of
                   Inl e \<Rightarrow> Inl e
                 | Inr fig2 \<Rightarrow> Inr (fig2, HoverOff))))))
      else
        (case px_bar P
                \<lparr>chart_data = result_df, category_orders = all_variables,
                 facet_col_wrap = facet_ncol a, facet_row_spacing = spacing_v,
                 facet_col_spacing = horizontal_spacing a,
                 render_mode = None,
                 colors = m, traces = None, y_range = min_max\<rparr> of
           Inl e \<Rightarrow> Inl e
         | Inr fig \<Rightarrow> Inr (fig, XUnified)))"

text \<open>
  Lines 224 to 298, after the variables are known: the figure handed to the last
  step.
\<close>

definition render ::
  "('n, 'fig) plotting \<Rightarrow> 'n aggregated_profiles \<Rightarrow> 'n plot_args \<Rightarrow> 'n frame \<Rightarrow>
     'n cell list \<Rightarrow> error + 'fig" where
  "render P self a result_df all_variables =
     (case get_col ''_yhat_'' result_df of Inl e \<Rightarrow> Inl e | Inr dl \<Rightarrow>
     (case min_max_of P dl of Inl e \<Rightarrow> Inl e | Inr min_max \<Rightarrow>
     (case get_col ''_x_'' result_df of Inl e \<Rightarrow> Inl e | Inr xs \<Rightarrow>
     (case facet_rows (length all_variables) (facet_ncol a) of
        Inl e \<Rightarrow> Inl e | Inr facet_nrow \<Rightarrow>
     (case spacing P (vertical_spacing a) facet_nrow of Inl e \<Rightarrow> Inl e | Inr spacing_v \<Rightarrow>
     (case get_col ''_label_'' result_df of Inl e \<Rightarrow> Inl e | Inr labels \<Rightarrow>
     (case build_figure P self a result_df all_variables (is_numeric_dtype P xs) spacing_v
             (length (unique (dropna labels))) min_max of
        Inl e \<Rightarrow> Inl e
      | Inr (fig, hover) \<Rightarrow>
          fig_update_line_plot P fig (title a) (title_x a)
            (78 + 71 + facet_nrow * (280 + 60)) hover)))))))"

text \<open>
  Lines 196 to 309. The outcome of a call that does not raise is the value returned
  (\<^verbatim>\<open>None\<close> or the figure) and the list of the figures displayed.
\<close>

definition plot ::
  "('n, 'fig) plotting \<Rightarrow> 'n aggregated_profiles \<Rightarrow> 'n plot_args \<Rightarrow>
     error + ('fig option \<times> 'fig list)" where
  "plot P self a =
     (if geom a \<noteq> PyStr ''aggregates'' \<and> geom a \<noteq> PyStr ''profiles'' then Inl TypeError
      else
     (case merged_results self (objects a) of Inl e \<Rightarrow> Inl e | Inr result_df \<Rightarrow>
     (case variables_to_use result_df (names_of (variables_arg a)) of
        Inl e \<Rightarrow> Inl e
      | Inr (all_variables, result_df1) \<Rightarrow>
     (case render P self a result_df1 all_variables of Inl e \<Rightarrow> Inl e | Inr fig \<Rightarrow>
        (if show_arg a then
           (case fig_show P fig of Some e \<Rightarrow> Inl e | None \<Rightarrow> Inr (None, [fig]))
         else Inr (Some fig, []))))))"


section \<open>What the claims speak of\<close>

fun is_container :: "'n pyval \<Rightarrow> bool" where
  "is_container (CeterisParibus _) = True"
| "is_container _ = False"

text \<open>A container that holds both of its tables.\<close>

fun is_fitted :: "'n pyval \<Rightarrow> bool" where
  "is_fitted (CeterisParibus c) \<longleftrightarrow> cp_result c \<noteq> None \<and> new_observation c \<noteq> None"
| "is_fitted _ \<longleftrightarrow> False"


fun is_sequence :: "'n pyval \<Rightarrow> bool" where
  "is_sequence (PyList _) = True"
| "is_sequence (PyTuple _) = True"
| "is_sequence _ = False"

text \<open>
  What lines 112 to 127 leave in \<^verbatim>\<open>all_profiles\<close> and
  \<^verbatim>\<open>all_observations\<close>, or the error that they raise.
\<close>

definition gathered ::
  "'n collaborators \<Rightarrow> 'n pyval \<Rightarrow> error + ('n frame option \<times> 'n frame option)" where
  "gathered L cp =
     (case cp of
        CeterisParibus c \<Rightarrow>
          (case copy_table (cp_result c) of Inl e \<Rightarrow> Inl e | Inr r \<Rightarrow>
          (case copy_table (new_observation c) of Inl e \<Rightarrow> Inl e | Inr ob \<Rightarrow>
          (case deepcopy_call L c of Inl e \<Rightarrow> Inl e | Inr stored \<Rightarrow> Inr (Some r, Some ob))))
      | PyList xs \<Rightarrow> collect L xs (None, None)
      | PyTuple xs \<Rightarrow> collect L xs (None, None)
      | _ \<Rightarrow> Inl TypeError)"

text \<open>What lines 112 to 139 compute for \<^verbatim>\<open>self.result\<close>, or the error they raise.\<close>

definition aggregated ::
  "'n collaborators \<Rightarrow> 'n aggregated_profiles \<Rightarrow> 'n pyval \<Rightarrow> bool \<Rightarrow> error + 'n frame" where
  "aggregated L self cp verbose =
     (case gathered L cp of
        Inl e \<Rightarrow> Inl e
      | Inr (all_profiles, all_observations) \<Rightarrow> aggregate L self all_profiles verbose)"


text \<open>The observation tables of the containers supplied, in their order.\<close>

fun table_list :: "'n frame option \<Rightarrow> 'n frame list" where
  "table_list None = []"
| "table_list (Some t) = [t]"

fun observation_tables :: "'n pyval list \<Rightarrow> 'n frame list" where
  "observation_tables [] = []"
| "observation_tables (CeterisParibus c # rest) =
     table_list (new_observation c) @ observation_tables rest"
| "observation_tables (_ # rest) = observation_tables rest"

fun supplied_observations :: "'n pyval \<Rightarrow> 'n frame list" where
  "supplied_observations (CeterisParibus c) = table_list (new_observation c)"
| "supplied_observations (PyList xs) = observation_tables xs"
| "supplied_observations (PyTuple xs) = observation_tables xs"
| "supplied_observations _ = []"

text \<open>
  The concatenation of tables, said directly: all the rows in order, under the labels
  in the order of their first appearance.
\<close>

fun merge_labels :: "string list \<Rightarrow> string list list \<Rightarrow> string list" where
  "merge_labels seen [] = seen"
| "merge_labels seen (cs # rest) = merge_labels (seen @ filter (\<lambda>c. c \<notin> set seen) cs) rest"

definition concatenation :: "'n frame list \<Rightarrow> 'n frame" where
  "concatenation ts =
     \<lparr>columns = merge_labels [] (map columns ts),
      rows = concat (map rows ts)\<rparr>"

text \<open>
  The mean of the column of observed predictions over the concatenation of the
  observation tables supplied.
\<close>

definition mean_of_observed :: "'n collaborators \<Rightarrow> 'n pyval \<Rightarrow> error + 'n" where
  "mean_of_observed L ceteris_paribus =
     (case get_col ''_yhat_'' (concatenation (supplied_observations ceteris_paribus)) of
        Inl e \<Rightarrow> Inl e
      | Inr ys \<Rightarrow> series_mean L ys)"

text \<open>The configuration of an object: the fields that \<^verbatim>\<open>fit\<close> does not assign.\<close>

definition same_configuration :: "'n aggregated_profiles \<Rightarrow> 'n aggregated_profiles \<Rightarrow> bool" where
  "same_configuration a b \<longleftrightarrow>
     type a = type b \<and> variables a = variables b \<and> variable_type a = variable_type b \<and>
     groups a = groups b \<and> span a = span b \<and> center a = center b \<and>
     random_state a = random_state b"

section \<open>An instance to run the model on\<close>

text \<open>
  A small instance of the collaborators over the rational numbers, on which the model
  can be run on examples: every variable named in the table is used, the aggregated
  table is the selected table itself, and the mean is the mean of the numbers of the
  column (a column without numbers has no rational mean, and the instance raises
  there); the libraries refuse nothing. The theorems about all collaborators do not
  depend on it.
\<close>

fun numbers :: "'n cell list \<Rightarrow> 'n list" where
  "numbers [] = []"
| "numbers (Num v # cs) = v # numbers cs"
| "numbers (_ # cs) = numbers cs"

fun strings :: "'n cell list \<Rightarrow> string list" where
  "strings [] = []"
| "strings (Str s # cs) = s # strings cs"
| "strings (_ # cs) = strings cs"

definition demo_all_variables :: "rat frame option \<Rightarrow> string list option \<Rightarrow> error + string list" where
  "demo_all_variables all_profiles vs =
     (case all_profiles of
        None \<Rightarrow> Inl TypeError
      | Some df \<Rightarrow>
          (case get_col ''_vname_'' df of
             Inl e \<Rightarrow> Inl e
           | Inr names \<Rightarrow> Inr (remdups (strings names))))"

definition demo_numerical_categorical ::
  "string list \<Rightarrow> rat frame option \<Rightarrow> string \<Rightarrow> error + (rat frame \<times> string list)" where
  "demo_numerical_categorical all_variables all_profiles vt =
     (case all_profiles of None \<Rightarrow> Inl TypeError | Some df \<Rightarrow> Inr (df, all_variables))"

definition demo_mean :: "rat cell list \<Rightarrow> error + rat" where
  "demo_mean ys =
     (if numbers ys = [] then Inl ValueError
      else Inr (sum_list (numbers ys) / of_nat (length (numbers ys))))"

definition demo :: "rat collaborators" where
  "demo =
     \<lparr>prepare_all_variables = demo_all_variables,
      prepare_numerical_categorical = demo_numerical_categorical,
      create_x = (\<lambda>df vt. Inr df),
      aggregate_profiles = (\<lambda>df t g c s v. Inr df),
      series_mean = demo_mean,
      concat_raises = (\<lambda>a d. None),
      deepcopy_raises = (\<lambda>c. None)\<rparr>"

text \<open>One profile table with one variable, and two observation tables.\<close>

definition profiles_a :: "rat frame" where
  "profiles_a =
     \<lparr>columns = [''_vname_'', ''_yhat_''],
      rows = [[(''_vname_'', Str ''age''), (''_yhat_'', Num 1)],
              [(''_vname_'', Str ''age''), (''_yhat_'', Num 3)]]\<rparr>"

definition observations_a :: "rat frame" where
  "observations_a = \<lparr>columns = [''_yhat_''], rows = [[(''_yhat_'', Num 2)]]\<rparr>"

definition observations_b :: "rat frame" where
  "observations_b = \<lparr>columns = [''_yhat_''], rows = [[(''_yhat_'', Num 4)]]\<rparr>"

definition cp_a :: "rat ceteris_paribus" where
  "cp_a = \<lparr>cp_result = Some profiles_a, new_observation = Some observations_a\<rparr>"

definition cp_b :: "rat ceteris_paribus" where
  "cp_b = \<lparr>cp_result = Some profiles_a, new_observation = Some observations_b\<rparr>"

text \<open>A container whose observation table has no column of predictions.\<close>

definition cp_no_yhat :: "rat ceteris_paribus" where
  "cp_no_yhat =
     \<lparr>cp_result = Some profiles_a,
      new_observation = Some \<lparr>columns = [''age''], rows = [[(''age'', Num 30)]]\<rparr>\<rparr>"

text \<open>A container that was never fitted.\<close>

definition cp_unfitted :: "rat ceteris_paribus" where
  "cp_unfitted = \<lparr>cp_result = None, new_observation = None\<rparr>"

text \<open>\<^verbatim>\<open>AggregatedProfiles()\<close>, with the default arguments.\<close>

definition fresh :: "rat aggregated_profiles" where
  "fresh =
     \<lparr>variable_type = ''numerical'', groups = None, type = ''partial'', variables = None,
      span = 1 / 4, center = True, result = None, mean_prediction = None,
      raw_profiles = None, random_state = None\<rparr>"

text \<open>
  An instance of the plotting collaborators, with the name of the chart for a figure,
  and a fitted object with its default arguments of \<^verbatim>\<open>plot\<close>.
\<close>

definition demo_min_max :: "rat cell list \<Rightarrow> error + (rat \<times> rat)" where
  "demo_min_max dl =
     (case numbers dl of
        [] \<Rightarrow> Inl ValueError
      | y # ys \<Rightarrow>
          (let lo = fold min ys y; hi = fold max ys y; margin = (hi - lo) / 10
           in Inr (lo - margin, hi + margin)))"

definition demo_plotting :: "(rat, string) plotting" where
  "demo_plotting =
     \<lparr>is_literal = (\<lambda>v s. v = PyStr s),
      min_max_of = demo_min_max,
      is_numeric_dtype = (\<lambda>cs. strings cs = []),
      default_spacing = (\<lambda>n. 3 / 10 / of_int n),
      px_line = (\<lambda>spec. Inr ''line''),
      px_bar = (\<lambda>spec. Inr ''bar''),
      widen_traces = (\<lambda>fig s. Inr fig),
      cp_plot = (\<lambda>raw vs ncol. Inr ''profiles''),
      add_traces = (\<lambda>fig_cp fig. Inr (fig_cp @ ''+'' @ fig)),
      fig_update_line_plot = (\<lambda>fig t tx h hover. Inr fig),
      fig_show = (\<lambda>fig. None)\<rparr>"

definition result_a :: "rat frame" where
  "result_a =
     \<lparr>columns = [''_vname_'', ''_label_'', ''_x_'', ''_yhat_''],
      rows = [[(''_vname_'', Str ''age''), (''_label_'', Str ''model''),
               (''_x_'', Num 20), (''_yhat_'', Num 1)],
              [(''_vname_'', Str ''age''), (''_label_'', Str ''model''),
               (''_x_'', Num 40), (''_yhat_'', Num 3)]]\<rparr>"

definition fitted :: "rat aggregated_profiles" where
  "fitted = fresh\<lparr>result := Some result_a, mean_prediction := Some 2\<rparr>"

definition default_args :: "rat plot_args" where
  "default_args =
     \<lparr>objects = NoObjects, geom = PyStr ''aggregates'', variables_arg = NoNames,
      size_arg = 2, alpha = 1, facet_ncol = 2, title = ''Aggregated Profiles'',
      title_x = ''prediction'', horizontal_spacing = 1 / 20, vertical_spacing = None,
      show_arg = True\<rparr>"


section \<open>Properties of fit and of the construction\<close>



lemma collect_observations:
  "collect L xs (ps, Some ob) = Inr (ps', os') \<Longrightarrow>
     os' = Some \<lparr>columns = merge_labels (columns ob) (map columns (observation_tables xs)),
                 rows = rows ob @ concat (map rows (observation_tables xs))\<rparr>"
proof (induction xs arbitrary: ps ob)
  case Nil
  then show ?case by (cases ob) auto
next
  case (Cons x xs)
  show ?case
  proof (cases x)
    case (CeterisParibus c)
    with Cons.prems obtain r t ps1 where t: "new_observation c = Some t"
      and step: "collect L xs (Some ps1, Some (pd_concat (Some ob) t)) = Inr (ps', os')"
      by (auto simp: copy_table_def concat_call_def split: sum.splits option.splits)
    from Cons.IH[OF step] show ?thesis
      using CeterisParibus t by simp
  qed (use Cons.prems in simp_all)
qed

lemma collect_from_none:
  assumes "collect L xs (None, None) = Inr (ps, os)"
  shows "os = (if xs = [] then None else Some (concatenation (observation_tables xs)))"
proof (cases xs)
  case Nil
  with assms show ?thesis by simp
next
  case (Cons x rest)
  show ?thesis
  proof (cases x)
    case (CeterisParibus c)
    with assms Cons obtain t ps1 where t: "new_observation c = Some t"
      and step: "collect L rest (Some ps1, Some t) = Inr (ps, os)"
      by (auto simp: copy_table_def concat_call_def split: sum.splits option.splits)
    from collect_observations[OF step] show ?thesis
      using Cons CeterisParibus t by (simp add: concatenation_def)
  qed (use assms Cons in simp_all)
qed

lemma fit_tail_raw: "raw_profiles (snd (fit_tail L s ps os v)) = raw_profiles s"
  by (simp add: fit_tail_def split: sum.splits)

lemma fit_sequence_raw:
  "is_sequence cp \<Longrightarrow> raw_profiles (snd (fit L self cp verbose)) = raw_profiles self"
  by (cases cp) (simp_all add: fit_def fit_tail_raw split: sum.splits prod.splits)

text \<open>\<^verbatim>\<open>fit\<close> is its first part, lines 112 to 127, followed by the rest.\<close>

lemma fit_gathered_failure:
  "gathered L cp = Inl e \<Longrightarrow> fit L self cp verbose = (Inl e, self)"
  by (cases cp) (auto simp: fit_def gathered_def split: sum.splits)

lemma fit_gathered_single:
  "gathered L (CeterisParibus c) = Inr (ps, os) \<Longrightarrow>
     fit L self (CeterisParibus c) verbose =
       fit_tail L (self\<lparr>raw_profiles := Some c\<rparr>) ps os verbose"
  by (auto simp: fit_def gathered_def deepcopy_call_def split: sum.splits option.splits)

lemma fit_gathered_sequence:
  "is_sequence cp \<Longrightarrow> gathered L cp = Inr (ps, os) \<Longrightarrow>
     fit L self cp verbose = fit_tail L self ps os verbose"
  by (cases cp) (auto simp: fit_def gathered_def)



lemma fit_single_raw:
  "\<not> isl (gathered L (CeterisParibus c)) \<Longrightarrow>
     raw_profiles (snd (fit L self (CeterisParibus c) verbose)) = Some c"
proof -
  assume "\<not> isl (gathered L (CeterisParibus c))"
  then obtain ps os where "gathered L (CeterisParibus c) = Inr (ps, os)"
    by (cases "gathered L (CeterisParibus c)") auto
  from fit_gathered_single[OF this] show ?thesis
    by (simp add: fit_tail_raw)
qed

lemma fit_empty_list:
  "fst (fit L self (PyList []) verbose) =
     (case aggregate L self None verbose of Inl e \<Rightarrow> Inl e | Inr r \<Rightarrow> Inl TypeError)"
  by (simp add: fit_def fit_tail_def observed_mean_def split: sum.splits)

lemma init_default:
  "init ''partial'' NoNames (PyStr ''numerical'') NoNames (1 / 4) True None = Inr fresh"
  by (simp add: init_def check_variable_type_def fresh_def)

lemma fit_tail_success:
  "fit_tail L s ps os v = (Inr (), s') \<Longrightarrow>
     map_option Inr (mean_prediction s') = Some (observed_mean L os)"
  by (auto simp: fit_tail_def split: sum.splits)

lemma fit_tail_success_some:
  "fit_tail L s ps os v = (Inr (), s') \<Longrightarrow> os \<noteq> None"
  by (auto simp: fit_tail_def observed_mean_def split: sum.splits option.splits)

lemma fit_mean:
  assumes "fit L self cp verbose = (Inr (), self')"
  shows "map_option Inr (mean_prediction self') = Some (mean_of_observed L cp)"
proof (cases cp)
  case (CeterisParibus c)
  with assms obtain r t where t: "new_observation c = Some t"
    and tail: "fit_tail L (self\<lparr>raw_profiles := Some c\<rparr>) (Some r) (Some t) verbose = (Inr (), self')"
    by (auto simp: fit_def copy_table_def deepcopy_call_def split: sum.splits option.splits)
  from fit_tail_success[OF tail] show ?thesis
    using CeterisParibus t
    by (cases t) (simp add: mean_of_observed_def observed_mean_def concatenation_def)
next
  case (PyList xs)
  with assms obtain ps os where c: "collect L xs (None, None) = Inr (ps, os)"
    and t: "fit_tail L self ps os verbose = (Inr (), self')"
    by (auto simp: fit_def split: sum.splits)
  from fit_tail_success_some[OF t] collect_from_none[OF c]
  have "os = Some (concatenation (observation_tables xs))" by (auto split: if_splits)
  with fit_tail_success[OF t] show ?thesis
    using PyList by (simp add: mean_of_observed_def observed_mean_def)
next
  case (PyTuple xs)
  with assms obtain ps os where c: "collect L xs (None, None) = Inr (ps, os)"
    and t: "fit_tail L self ps os verbose = (Inr (), self')"
    by (auto simp: fit_def split: sum.splits)
  from fit_tail_success_some[OF t] collect_from_none[OF c]
  have "os = Some (concatenation (observation_tables xs))" by (auto split: if_splits)
  with fit_tail_success[OF t] show ?thesis
    using PyTuple by (simp add: mean_of_observed_def observed_mean_def)
qed (use assms in \<open>simp_all add: fit_def\<close>)

lemma aggregate_configuration:
  "same_configuration a b \<Longrightarrow> aggregate L a ps v = aggregate L b ps v"
  by (simp add: same_configuration_def aggregate_def split: sum.splits prod.splits)

lemma same_configuration_raw:
  "same_configuration (a\<lparr>raw_profiles := x\<rparr>) a"
  by (simp add: same_configuration_def)

lemma fit_tail_failure:
  "fst (fit_tail L s ps os v) = Inl e \<Longrightarrow>
     mean_prediction (snd (fit_tail L s ps os v)) = mean_prediction s \<and>
     result (snd (fit_tail L s ps os v)) =
       (case aggregate L s ps v of Inl e' \<Rightarrow> result s | Inr r \<Rightarrow> Some r)"
  by (simp add: fit_tail_def split: sum.splits)

lemma fit_tail_same_configuration:
  "same_configuration (snd (fit_tail L s ps os v)) s"
  by (simp add: fit_tail_def same_configuration_def split: sum.splits)

text \<open>
  \<^verbatim>\<open>fit\<close> reads none of \<^verbatim>\<open>result\<close>, \<^verbatim>\<open>mean_prediction\<close> and
  \<^verbatim>\<open>raw_profiles\<close>: on objects of the same configuration it has the same outcome
  and, when it succeeds, leaves the same result table.
\<close>

lemma fit_ignores_previous_results:
  assumes "same_configuration a b"
  shows "fst (fit L a cp verbose) = fst (fit L b cp verbose) \<and>
         (fst (fit L a cp verbose) = Inr () \<longrightarrow>
            result (snd (fit L a cp verbose)) = result (snd (fit L b cp verbose)))"
proof -
  have tail: "fst (fit_tail L a' ps os verbose) = fst (fit_tail L b' ps os verbose) \<and>
         (fst (fit_tail L a' ps os verbose) = Inr () \<longrightarrow>
            result (snd (fit_tail L a' ps os verbose)) =
            result (snd (fit_tail L b' ps os verbose)))"
    if "same_configuration a' b'" for a' b' ps os
    using aggregate_configuration[OF that, of L ps verbose]
    by (simp add: fit_tail_def split: sum.splits)
  have raw: "same_configuration (a\<lparr>raw_profiles := x\<rparr>) (b\<lparr>raw_profiles := x\<rparr>)" for x
    using assms by (simp add: same_configuration_def)
  show ?thesis
  proof (cases cp)
    case (CeterisParibus c)
    then show ?thesis
      using tail[OF raw] by (simp add: fit_def split: sum.splits)
  next
    case (PyList xs)
    then show ?thesis
      using tail[OF assms] by (simp add: fit_def split: sum.splits prod.splits)
  next
    case (PyTuple xs)
    then show ?thesis
      using tail[OF assms] by (simp add: fit_def split: sum.splits prod.splits)
  qed (simp_all add: fit_def)
qed


text \<open>
  The loop gets through a list of fitted containers when no concatenation is refused.
\<close>

lemma collect_fitted:
  "list_all is_fitted xs \<Longrightarrow> (\<And>a d. concat_raises L a d = None) \<Longrightarrow>
     \<not> isl (collect L xs acc)"
proof (induction xs arbitrary: acc)
  case Nil
  then show ?case by simp
next
  case (Cons x xs)
  obtain ps os where acc: "acc = (ps, os)" by (cases acc)
  from Cons.prems(1) obtain c where x: "x = CeterisParibus c"
    and r: "cp_result c \<noteq> None" and t: "new_observation c \<noteq> None"
    by (cases x) auto
  from Cons.prems(1) have rest: "list_all is_fitted xs" by simp
  from Cons.IH[OF rest Cons.prems(2)] show ?case
    using x r t acc Cons.prems(2)
    by (auto simp: copy_table_def concat_call_def split: option.splits)
qed

lemma gathered_shape:
  "gathered L cp = Inr (ps, os) \<Longrightarrow> is_container cp \<or> is_sequence cp"
  by (cases cp) (simp_all add: gathered_def)

lemmas run_defs =
  fit_def fit_tail_def aggregate_def observed_mean_def select_vnames_def get_col_def
  cell_at_def copy_table_def concat_call_def deepcopy_call_def gathered_def aggregated_def
  demo_def demo_all_variables_def demo_numerical_categorical_def demo_mean_def
  fresh_def fitted_def cp_a_def cp_b_def cp_no_yhat_def cp_unfitted_def profiles_a_def
  observations_a_def observations_b_def result_a_def




text \<open>
  Claim C10: when \<^verbatim>\<open>fit\<close> is given a list or a tuple it never writes
  \<^verbatim>\<open>raw_profiles\<close>, which keeps the value it held before the call, whether the call
  succeeds or raises.
\<close>

theorem fit_sequence_keeps_raw_profiles:
  "is_sequence cp \<Longrightarrow> raw_profiles (snd (fit L self cp verbose)) = raw_profiles self"
  by (simp add: fit_sequence_raw)

theorem fit_sequence_keeps_raw_profiles_witness:
  "is_sequence (PyList [CeterisParibus cp_a, CeterisParibus cp_b]) \<and>
   raw_profiles (snd (fit demo (fresh\<lparr>raw_profiles := Some cp_b\<rparr>)
     (PyList [CeterisParibus cp_a, CeterisParibus cp_b]) True)) = Some cp_b"
  using fit_sequence_keeps_raw_profiles[of "PyList [CeterisParibus cp_a, CeterisParibus cp_b]"
    demo "fresh\<lparr>raw_profiles := Some cp_b\<rparr>" True]
  by simp

text \<open>
  Claim C3: after a successful call to \<^verbatim>\<open>fit\<close>, \<^verbatim>\<open>mean_prediction\<close> is the mean
  of the column \<^verbatim>\<open>_yhat_\<close> over the concatenation of the observation tables of all
  the containers supplied.
\<close>

theorem fit_mean_prediction:
  "fit L self cp verbose = (Inr (), self') \<Longrightarrow>
     map_option Inr (mean_prediction self') = Some (mean_of_observed L cp)"
  by (rule fit_mean)

lemma run_two:
  "fit demo fresh (PyList [CeterisParibus cp_a, CeterisParibus cp_b]) True =
     (Inr (), fresh\<lparr>result := Some (pd_concat (Some profiles_a) profiles_a),
                    mean_prediction := Some 3\<rparr>)"
  by (simp add: run_defs)

theorem fit_mean_prediction_witness:
  "fit demo fresh (PyList [CeterisParibus cp_a, CeterisParibus cp_b]) True =
     (Inr (), fresh\<lparr>result := Some (pd_concat (Some profiles_a) profiles_a),
                    mean_prediction := Some 3\<rparr>) \<and>
   mean_of_observed demo (PyList [CeterisParibus cp_a, CeterisParibus cp_b]) = Inr 3"
  using fit_mean_prediction[OF run_two] run_two by simp

text \<open>
  Claim C2 at a failing input: an object fitted on the single container \<open>cp_a\<close> and
  then, successfully, on the list of \<open>cp_a\<close> and \<open>cp_b\<close> still holds \<open>cp_a\<close> in
  \<^verbatim>\<open>raw_profiles\<close>, where the claim and the docstring of the class say \<^verbatim>\<open>None\<close>.
\<close>

theorem refit_with_list_keeps_raw_profiles:
  "fit demo fresh (CeterisParibus cp_a) True =
     (Inr (), fresh\<lparr>result := Some profiles_a, mean_prediction := Some 2,
                    raw_profiles := Some cp_a\<rparr>) \<and>
   fit demo (fresh\<lparr>result := Some profiles_a, mean_prediction := Some 2,
                   raw_profiles := Some cp_a\<rparr>)
     (PyList [CeterisParibus cp_a, CeterisParibus cp_b]) True =
     (Inr (), fresh\<lparr>result := Some (pd_concat (Some profiles_a) profiles_a),
                    mean_prediction := Some 3, raw_profiles := Some cp_a\<rparr>)"
  by (simp add: run_defs)

text \<open>
  Claim C7, as amended: a call to \<^verbatim>\<open>fit\<close> that raises leaves
  \<^verbatim>\<open>mean_prediction\<close> and the configuration as they were. When the error comes from
  lines 112 to 127 (the check of the argument, a container that was never fitted, a
  copy or a concatenation that is refused) it leaves the whole object as it was.
  Otherwise \<^verbatim>\<open>raw_profiles\<close> holds the single container that was handed in, and is
  as it was for a list or tuple; and \<^verbatim>\<open>result\<close> is as it was unless lines 129 to
  139 have completed, the error being that of line 141: then it holds the table
  aggregated by this call.
\<close>

theorem fit_failure_frame:
  assumes "fst (fit L self cp verbose) = Inl e"
  shows "mean_prediction (snd (fit L self cp verbose)) = mean_prediction self \<and>
         same_configuration (snd (fit L self cp verbose)) self \<and>
         (isl (gathered L cp) \<longrightarrow> snd (fit L self cp verbose) = self) \<and>
         (\<not> is_container cp \<longrightarrow>
            raw_profiles (snd (fit L self cp verbose)) = raw_profiles self) \<and>
         (is_container cp \<and> \<not> isl (gathered L cp) \<longrightarrow>
            map_option CeterisParibus (raw_profiles (snd (fit L self cp verbose))) = Some cp) \<and>
         result (snd (fit L self cp verbose)) =
           (case aggregated L self cp verbose of Inl e' \<Rightarrow> result self | Inr r \<Rightarrow> Some r)"
proof (cases "gathered L cp")
  case (Inl e')
  from fit_gathered_failure[OF Inl, of self verbose] Inl show ?thesis
    by (cases cp) (simp_all add: aggregated_def same_configuration_def fit_sequence_raw)
next
  case (Inr p)
  obtain ps os where p: "p = (ps, os)" by (cases p)
  with Inr have g: "gathered L cp = Inr (ps, os)" by simp
  from gathered_shape[OF g] show ?thesis
  proof
    assume "is_container cp"
    then obtain c where c: "cp = CeterisParibus c" by (cases cp) auto
    let ?s = "self\<lparr>raw_profiles := Some c\<rparr>"
    have f: "fit L self cp verbose = fit_tail L ?s ps os verbose"
      using fit_gathered_single g c by simp
    have a: "aggregate L ?s ps verbose = aggregate L self ps verbose"
      by (rule aggregate_configuration[OF same_configuration_raw])
    from assms f have "fst (fit_tail L ?s ps os verbose) = Inl e" by simp
    from fit_tail_failure[OF this] fit_tail_same_configuration[of L ?s ps os verbose]
    show ?thesis
      using f g c a
      by (simp add: aggregated_def fit_tail_raw same_configuration_def split: sum.splits)
  next
    assume s: "is_sequence cp"
    then have n: "\<not> is_container cp" by (cases cp) auto
    have f: "fit L self cp verbose = fit_tail L self ps os verbose"
      by (rule fit_gathered_sequence[OF s g])
    from assms f have "fst (fit_tail L self ps os verbose) = Inl e" by simp
    from fit_tail_failure[OF this] fit_tail_same_configuration[of L self ps os verbose]
    show ?thesis
      using f g n by (simp add: aggregated_def fit_tail_raw)
  qed
qed

theorem fit_failure_frame_witness:
  "fst (fit demo (fitted\<lparr>raw_profiles := Some cp_a\<rparr>) (CeterisParibus cp_no_yhat) True) =
     Inl KeyError \<and>
   is_container (CeterisParibus cp_no_yhat) \<and>
   \<not> isl (gathered demo (CeterisParibus cp_no_yhat)) \<and>
   snd (fit demo (fitted\<lparr>raw_profiles := Some cp_a\<rparr>) (CeterisParibus cp_no_yhat) True) =
     fitted\<lparr>raw_profiles := Some cp_no_yhat, result := Some profiles_a\<rparr> \<and>
   fst (fit demo (fitted\<lparr>raw_profiles := Some cp_a\<rparr>) (CeterisParibus cp_unfitted) True) =
     Inl AttributeError \<and>
   isl (gathered demo (CeterisParibus cp_unfitted)) \<and>
   snd (fit demo (fitted\<lparr>raw_profiles := Some cp_a\<rparr>) (CeterisParibus cp_unfitted) True) =
     fitted\<lparr>raw_profiles := Some cp_a\<rparr>"
proof -
  let ?s = "fitted\<lparr>raw_profiles := Some cp_a\<rparr>"
  have f1: "fst (fit demo ?s (CeterisParibus cp_no_yhat) True) = Inl KeyError"
    by (simp add: run_defs)
  have g1: "\<not> isl (gathered demo (CeterisParibus cp_no_yhat))"
    by (simp add: run_defs)
  have a1: "aggregated demo ?s (CeterisParibus cp_no_yhat) True = Inr profiles_a"
    by (simp add: run_defs)
  have f2: "fst (fit demo ?s (CeterisParibus cp_unfitted) True) = Inl AttributeError"
    by (simp add: run_defs)
  have g2: "isl (gathered demo (CeterisParibus cp_unfitted))"
    by (simp add: run_defs)
  have e: "snd (fit demo ?s (CeterisParibus cp_no_yhat) True) =
      fitted\<lparr>raw_profiles := Some cp_no_yhat, result := Some profiles_a\<rparr>"
    using fit_failure_frame[OF f1] g1 a1
    by (simp add: same_configuration_def fitted_def fresh_def
        aggregated_profiles.equality)
  from fit_failure_frame[OF f2] f1 f2 g1 g2 e show ?thesis by simp
qed

text \<open>
  Claim C7 as stated fails: on a single container whose observation table has no column
  \<^verbatim>\<open>_yhat_\<close> the call raises a \<^verbatim>\<open>KeyError\<close> at line 141, after
  \<^verbatim>\<open>raw_profiles\<close> (line 115) and \<^verbatim>\<open>result\<close> (line 138) have been assigned.
\<close>

theorem fit_failure_changes_object:
  "fst (fit demo fresh (CeterisParibus cp_no_yhat) True) = Inl KeyError \<and>
   raw_profiles fresh = None \<and>
   raw_profiles (snd (fit demo fresh (CeterisParibus cp_no_yhat) True)) = Some cp_no_yhat \<and>
   result fresh = None \<and>
   result (snd (fit demo fresh (CeterisParibus cp_no_yhat) True)) = Some profiles_a"
  by (simp add: run_defs)

text \<open>
  Claim C9: constructing an object with a variable kind that is neither
  \<^verbatim>\<open>'numerical'\<close> nor \<^verbatim>\<open>'categorical'\<close> fails with the validation error.
\<close>

theorem init_rejects_variable_type:
  "v \<noteq> PyStr ''numerical'' \<Longrightarrow> v \<noteq> PyStr ''categorical'' \<Longrightarrow>
     init t vs v gs sp ce rs = Inl ValidationError"
  by (simp add: init_def check_variable_type_def)

theorem init_rejects_variable_type_witness:
  "(PyStr ''ordinal'' :: rat pyval) \<noteq> PyStr ''numerical'' \<and>
   (PyStr ''ordinal'' :: rat pyval) \<noteq> PyStr ''categorical'' \<and>
   init ''partial'' NoNames (PyStr ''ordinal'' :: rat pyval) NoNames (1 / 4) True None =
     Inl ValidationError"
  using init_rejects_variable_type[of "PyStr ''ordinal'' :: rat pyval" "''partial''" NoNames
    NoNames "1 / 4" True None]
  by simp

section \<open>Properties of plot\<close>

lemma set_unique: "set (unique xs) = set xs"
  by (simp add: unique_def)




text \<open>
  Claim C5: a call to \<^verbatim>\<open>plot\<close> whose \<^verbatim>\<open>geom\<close> is neither
  \<^verbatim>\<open>'aggregates'\<close> nor \<^verbatim>\<open>'profiles'\<close> raises a \<^verbatim>\<open>TypeError\<close>, whatever the
  plotting collaborators are: none of them is asked for a figure.
\<close>
theorem plot_rejects_geom:
  "geom a \<noteq> PyStr ''aggregates'' \<Longrightarrow> geom a \<noteq> PyStr ''profiles'' \<Longrightarrow>
     plot P self a = Inl TypeError"
  by (simp add: plot_def)







theorem plot_rejects_geom_witness:
  "(PyStr ''lines'' :: rat pyval) \<noteq> PyStr ''aggregates'' \<and>
   (PyStr ''lines'' :: rat pyval) \<noteq> PyStr ''profiles'' \<and>
   plot demo_plotting fitted (default_args\<lparr>geom := PyStr ''lines''\<rparr>) = Inl TypeError"
  using plot_rejects_geom[of "default_args\<lparr>geom := PyStr ''lines''\<rparr>" demo_plotting fitted]
  by (simp add: default_args_def)



end
